theory Spec2Isabelle
  imports Main "HOL-Library.Word"
begin

section \<open>Data model of \<open>web3/_utils/contracts.py\<close>\<close>

text \<open>
  An ABI is a Python list of dictionaries. An entry carries the keys \<open>type\<close>,
  \<open>name\<close>, \<open>inputs\<close> and \<open>payable\<close>; \<open>name\<close> and \<open>payable\<close> may be missing
  (fallback and receive entries have no name, modern ABIs have no \<open>payable\<close> key), a
  missing \<open>inputs\<close> key is the empty list. An input parameter has an optional name, a type
  string and, for tuple types, nested components.
\<close>

type_synonym byte = "8 word"

datatype abi_param = AbiParam (pname: "string option") (ptype: string) (components: "abi_param list")

record abi_entry =
  abi_type :: string
  abi_name :: "string option"
  abi_inputs :: "abi_param list"
  abi_payable :: "bool option"

text \<open>
  The function identifier of an invocation: the marker classes \<open>FallbackFn\<close> and
  \<open>ReceiveFn\<close>, a text, or anything else (\<open>None\<close>, bytes, a number).
\<close>

datatype fn_identifier = FallbackFn | ReceiveFn | Text string | OtherIdentifier

text \<open>The three diagnoses of a failed function resolution (lines 138 to 146).\<close>

datatype diagnosis =
    ImproperNumberOfArguments
  | NoMatchingArgumentTypes
  | AmbiguousArgumentEncoding

text \<open>
  Every exception the module can raise, as a value. The message of the
  \<open>ValidationError\<close> of \<open>find_matching_fn_abi\<close> is kept as its parts: the name asked
  for, the number of entries with that name, their signatures, and the diagnosis.
\<close>

datatype error =
    NoMatchingEventsFound
  | MultipleEventsFound
  | UnsupportedFunctionIdentifier
  | CouldNotIdentifyFunction string nat "string list" diagnosis
  | DiagnosisUnbound
  | ArgumentsNotEncodable "string list"
  | DataKeyPresent
  | NonZeroEtherNotPayable
  | NoneTypeNotIterable
  | FallbackNotFound
  | ReceiveNotFound
  | NameKeyMissing
  | IncorrectArgumentCount
  | DuplicateArguments
  | UnknownArguments
  | NormalizerRaised
  | CodecRaised
  | InvalidHexData

datatype exception_class =
    ValueError | TypeError | ValidationError | UnboundLocalError | KeyError
  | NotFoundError | ExternalError

fun exception_class_of :: "error \<Rightarrow> exception_class" where
  "exception_class_of NoMatchingEventsFound = ValueError"
| "exception_class_of MultipleEventsFound = ValueError"
| "exception_class_of UnsupportedFunctionIdentifier = TypeError"
| "exception_class_of (CouldNotIdentifyFunction n k sigs d) = ValidationError"
| "exception_class_of DiagnosisUnbound = UnboundLocalError"
| "exception_class_of (ArgumentsNotEncodable ts) = TypeError"
| "exception_class_of DataKeyPresent = ValueError"
| "exception_class_of NonZeroEtherNotPayable = ValidationError"
| "exception_class_of NoneTypeNotIterable = TypeError"
| "exception_class_of FallbackNotFound = NotFoundError"
| "exception_class_of ReceiveNotFound = NotFoundError"
| "exception_class_of NameKeyMissing = KeyError"
| "exception_class_of IncorrectArgumentCount = TypeError"
| "exception_class_of DuplicateArguments = TypeError"
| "exception_class_of UnknownArguments = TypeError"
| "exception_class_of NormalizerRaised = ExternalError"
| "exception_class_of CodecRaised = ExternalError"
| "exception_class_of InvalidHexData = ValueError"

text \<open>
  The binary codec (\<open>eth_abi.codec.ABICodec\<close>) is an external collaborator: its two
  methods are parameters. \<open>encode_abi\<close> may raise, which is \<open>None\<close>. Python argument
  values are of an arbitrary type \<open>'v\<close>.
\<close>

record 'v abi_codec =
  is_encodable :: "string \<Rightarrow> 'v \<Rightarrow> bool"
  codec_encode_abi :: "string list \<Rightarrow> 'v list \<Rightarrow> byte list option"

text \<open>
  Of the \<open>Web3\<close> object the module reads the codec and, through the normalizers
  (\<open>abi_ens_resolver(w3)\<close> first), whatever name resolution needs. \<open>map_abi_data\<close>
  with the four normalizers of \<open>encode_abi\<close> is one parameter; it may raise.
\<close>

record 'v web3 =
  codec :: "'v abi_codec"
  map_abi_data_normalizers :: "string list \<Rightarrow> 'v list \<Rightarrow> 'v list option"

section \<open>Helpers of \<open>web3._utils.abi\<close>\<close>

definition starts_with :: "string \<Rightarrow> string \<Rightarrow> bool" where
  "starts_with p s = (take (length p) s = p)"

fun join :: "string \<Rightarrow> string list \<Rightarrow> string" where
  "join sep [] = []"
| "join sep [x] = x"
| "join sep (x # y # ys) = x @ sep @ join sep (y # ys)"

text \<open>
  Modelled from the spec: \<open>collapse_if_tuple\<close> and \<open>get_abi_input_types\<close> of
  \<open>web3/_utils/abi.py\<close> are not among the source files. The spec's type descriptor
  is "primitive name + optional fixed/dynamic array dimension + optional nested component
  list for tuples", and the encoder starts by extracting the "ordered declared input types
  from the entry": a tuple type is written as its parenthesised, comma-joined component
  types followed by the array dimension.
\<close>

fun collapse_if_tuple :: "abi_param \<Rightarrow> string" where
  "collapse_if_tuple (AbiParam n t cs) =
     (if \<not> starts_with ''tuple'' t then t
      else ''('' @ join '','' (map collapse_if_tuple cs) @ '')'' @ drop 5 t)"

definition get_abi_input_types :: "abi_entry \<Rightarrow> string list" where
  "get_abi_input_types abi = map collapse_if_tuple (abi_inputs abi)"

text \<open>
  Modelled from the spec: \<open>abi_to_signature\<close> of \<open>web3/_utils/abi.py\<close> is not among
  the source files. The spec's canonical signature string is "name + parenthesized
  comma-joined parameter types, no spaces". Reading the name of an entry that has none
  raises \<open>KeyError\<close>.
\<close>

definition abi_to_signature :: "abi_entry \<Rightarrow> error + string" where
  "abi_to_signature abi =
     (case abi_name abi of
        None \<Rightarrow> Inl NameKeyMissing
      | Some n \<Rightarrow> Inr (n @ ''('' @ join '','' (get_abi_input_types abi) @ '')''))"

text \<open>
  Modelled from the spec: the filters of \<open>web3/_utils/abi.py\<close> are not among the
  source files. Section 4.1 of the spec: each filter maps a sequence of entries to a
  subsequence, order-preserving and pure; the filters are by entry kind, by exact name
  match, by exact input-argument count, by subset-match of the provided argument names
  against a candidate's parameter names, and by encodability of an argument set against a
  candidate's parameter types.
\<close>

definition filter_by_type :: "string \<Rightarrow> abi_entry list \<Rightarrow> abi_entry list" where
  "filter_by_type t contract_abi = filter (\<lambda>abi. abi_type abi = t) contract_abi"

definition filter_by_name :: "string \<Rightarrow> abi_entry list \<Rightarrow> abi_entry list" where
  "filter_by_name n contract_abi = filter (\<lambda>abi. abi_name abi = Some n) contract_abi"

definition filter_by_argument_count :: "nat \<Rightarrow> abi_entry list \<Rightarrow> abi_entry list" where
  "filter_by_argument_count num_arguments contract_abi =
     filter (\<lambda>abi. length (abi_inputs abi) = num_arguments) contract_abi"

definition get_abi_input_names :: "abi_entry \<Rightarrow> string option list" where
  "get_abi_input_names abi = map pname (abi_inputs abi)"

definition filter_by_argument_name :: "string list \<Rightarrow> abi_entry list \<Rightarrow> abi_entry list" where
  "filter_by_argument_name argument_names contract_abi =
     filter (\<lambda>abi. list_all (\<lambda>n. Some n \<in> set (get_abi_input_names abi)) argument_names)
       contract_abi"

text \<open>
  Modelled from the spec: \<open>merge_args_and_kwargs\<close> and \<open>get_aligned_abi_inputs\<close> of
  \<open>web3/_utils/abi.py\<close> are not among the source files. The spec's invariant of an
  invocation: "positional + named argument count must equal the chosen entry's input
  count; named keys must map 1:1 onto declared parameter names with no duplication across
  positional/named"; the result is the "ordered final argument values aligned to the
  entry's declared parameter order". Keyword arguments are an association list (a
  dictionary, in insertion order).
\<close>

fun lookup_all :: "(string \<times> 'v) list \<Rightarrow> string option list \<Rightarrow> 'v list option" where
  "lookup_all kwargs [] = Some []"
| "lookup_all kwargs (None # ns) = None"
| "lookup_all kwargs (Some n # ns) =
     (case map_of kwargs n of
        None \<Rightarrow> None
      | Some v \<Rightarrow> (case lookup_all kwargs ns of None \<Rightarrow> None | Some vs \<Rightarrow> Some (v # vs)))"

definition merge_args_and_kwargs ::
  "abi_entry \<Rightarrow> 'v list \<Rightarrow> (string \<times> 'v) list \<Rightarrow> error + 'v list" where
  "merge_args_and_kwargs function_abi args kwargs =
     (if length args + length kwargs \<noteq> length (abi_inputs function_abi)
      then Inl IncorrectArgumentCount
      else if kwargs = [] then Inr args
      else
        let sorted_arg_names = get_abi_input_names function_abi;
            positional = take (length args) sorted_arg_names
        in if list_ex (\<lambda>k. Some k \<in> set positional) (map fst kwargs)
           then Inl DuplicateArguments
           else if list_ex (\<lambda>k. Some k \<notin> set sorted_arg_names) (map fst kwargs)
           then Inl UnknownArguments
           else (case lookup_all kwargs (drop (length args) sorted_arg_names) of
                   None \<Rightarrow> Inl UnknownArguments
                 | Some vs \<Rightarrow> Inr (args @ vs)))"

definition get_aligned_abi_inputs :: "abi_entry \<Rightarrow> 'v list \<Rightarrow> string list \<times> 'v list" where
  "get_aligned_abi_inputs abi args = (get_abi_input_types abi, args)"

text \<open>
  Modelled from the spec: \<open>check_if_arguments_can_be_encoded\<close> and
  \<open>filter_by_encodability\<close> of \<open>web3/_utils/abi.py\<close> are not among the source files.
  The filter keeps a candidate when the "(positional, named) argument set can be
  normalized and type-checked against a candidate's parameter types without error": the
  arguments merge against the entry, there is one per declared input, and the codec
  accepts each value at its declared type.
\<close>

definition check_if_arguments_can_be_encoded ::
  "abi_entry \<Rightarrow> 'v abi_codec \<Rightarrow> 'v list \<Rightarrow> (string \<times> 'v) list \<Rightarrow> bool" where
  "check_if_arguments_can_be_encoded function_abi abi_codec args kwargs =
     (case merge_args_and_kwargs function_abi args kwargs of
        Inl e \<Rightarrow> False
      | Inr arguments \<Rightarrow>
          length (abi_inputs function_abi) = length arguments \<and>
          (case get_aligned_abi_inputs function_abi arguments of
             (types, aligned_args) \<Rightarrow>
               list_all (\<lambda>(t, arg). is_encodable abi_codec t arg) (zip types aligned_args)))"

definition filter_by_encodability ::
  "'v abi_codec \<Rightarrow> 'v list \<Rightarrow> (string \<times> 'v) list \<Rightarrow> abi_entry list \<Rightarrow> abi_entry list" where
  "filter_by_encodability abi_codec args kwargs contract_abi =
     filter (\<lambda>function_abi. check_if_arguments_can_be_encoded function_abi abi_codec args kwargs)
       contract_abi"

text \<open>
  Modelled from the spec: \<open>get_fallback_func_abi\<close> and \<open>get_receive_func_abi\<close> of
  \<open>web3/_utils/abi.py\<close> are not among the source files. Section 4.3 of the spec: "return
  the unique sentinel entry directly (no filtering) -- fails with NotFound if the ABI
  declares none".
\<close>

definition get_fallback_func_abi :: "abi_entry list \<Rightarrow> error + abi_entry" where
  "get_fallback_func_abi contract_abi =
     (case filter_by_type ''fallback'' contract_abi of
        [] \<Rightarrow> Inl FallbackNotFound
      | abi # rest \<Rightarrow> Inr abi)"

definition get_receive_func_abi :: "abi_entry list \<Rightarrow> error + abi_entry" where
  "get_receive_func_abi contract_abi =
     (case filter_by_type ''receive'' contract_abi of
        [] \<Rightarrow> Inl ReceiveNotFound
      | abi # rest \<Rightarrow> Inr abi)"

section \<open>The resolvers\<close>

text \<open>
  \<open>find_matching_event_abi\<close>, lines 76 to 100. The filter list starts with the kind
  filter; the name filter and the argument-name filter are appended when their argument is
  not \<open>None\<close>; \<open>pipe\<close> applies them left to right.
\<close>

definition find_matching_event_abi ::
  "abi_entry list \<Rightarrow> string option \<Rightarrow> string list option \<Rightarrow> error + abi_entry" where
  "find_matching_event_abi abi event_name argument_names =
     (let filters = [filter_by_type ''event''];
          filters = (case event_name of
                       None \<Rightarrow> filters
                     | Some n \<Rightarrow> filters @ [filter_by_name n]);
          filters = (case argument_names of
                       None \<Rightarrow> filters
                     | Some ns \<Rightarrow> filters @ [filter_by_argument_name ns]);
          event_abi_candidates = fold (\<lambda>f x. f x) filters abi
      in if length event_abi_candidates = 1 then Inr (event_abi_candidates ! 0)
         else if event_abi_candidates = [] then Inl NoMatchingEventsFound
         else Inl MultipleEventsFound)"

text \<open>The list comprehension of line 133: the first entry without a name raises.\<close>

fun signatures_of :: "abi_entry list \<Rightarrow> error + string list" where
  "signatures_of [] = Inr []"
| "signatures_of (func # funcs) =
     (case abi_to_signature func of
        Inl e \<Rightarrow> Inl e
      | Inr s \<Rightarrow> (case signatures_of funcs of Inl e \<Rightarrow> Inl e | Inr ss \<Rightarrow> Inr (s # ss)))"

text \<open>
  \<open>find_matching_fn_abi\<close>, lines 103 to 154. \<open>args or tuple()\<close> and
  \<open>kwargs or dict()\<close> turn \<open>None\<close> into the empty sequence. In the failure branch the
  local \<open>diagnosis\<close> is assigned in three branches only; when none is taken, the
  f-string of line 151 reads an unbound local, which raises \<open>UnboundLocalError\<close>.
\<close>

definition find_matching_fn_abi ::
  "abi_entry list \<Rightarrow> 'v abi_codec \<Rightarrow> fn_identifier \<Rightarrow> 'v list option \<Rightarrow>
   (string \<times> 'v) list option \<Rightarrow> error + abi_entry" where
  "find_matching_fn_abi abi abi_codec fn_identifier args kwargs =
     (let args = (case args of None \<Rightarrow> [] | Some a \<Rightarrow> a);
          kwargs = (case kwargs of None \<Rightarrow> [] | Some k \<Rightarrow> k);
          num_arguments = length args + length kwargs
      in case fn_identifier of
           FallbackFn \<Rightarrow> get_fallback_func_abi abi
         | ReceiveFn \<Rightarrow> get_receive_func_abi abi
         | OtherIdentifier \<Rightarrow> Inl UnsupportedFunctionIdentifier
         | Text name \<Rightarrow>
             let name_filter = filter_by_name name;
                 arg_count_filter = filter_by_argument_count num_arguments;
                 encoding_filter = filter_by_encodability abi_codec args kwargs;
                 function_candidates = encoding_filter (arg_count_filter (name_filter abi))
             in if length function_candidates = 1 then Inr (function_candidates ! 0)
                else
                  let matching_identifiers = name_filter abi
                  in (case signatures_of matching_identifiers of
                       Inl e \<Rightarrow> Inl e
                     | Inr matching_function_signatures \<Rightarrow>
                         let arg_count_matches = length (arg_count_filter matching_identifiers);
                             encoding_matches = length (encoding_filter matching_identifiers)
                         in if arg_count_matches = 0
                            then Inl (CouldNotIdentifyFunction name (length matching_identifiers)
                                        matching_function_signatures ImproperNumberOfArguments)
                            else if encoding_matches = 0
                            then Inl (CouldNotIdentifyFunction name (length matching_identifiers)
                                        matching_function_signatures NoMatchingArgumentTypes)
                            else if encoding_matches > 1
                            then Inl (CouldNotIdentifyFunction name (length matching_identifiers)
                                        matching_function_signatures AmbiguousArgumentEncoding)
                            else Inl DiagnosisUnbound))"

section \<open>Hexadecimal strings\<close>

text \<open>
  The string helpers of \<open>eth_utils\<close> and \<open>hexbytes\<close> the module calls:
  \<open>encode_hex\<close> (\<open>0x\<close> and two lower-case digits per byte), \<open>add_0x_prefix\<close>
  (adds the prefix unless the text starts with \<open>0x\<close> or \<open>0X\<close>) and the constructor
  \<open>HexBytes\<close> on a text (drops the prefix, pads an odd number of digits with a leading
  zero, and raises on a character that is not a hexadecimal digit).
\<close>

definition hexdigit :: "nat \<Rightarrow> char" where
  "hexdigit n = ''0123456789abcdef'' ! n"

definition hexlify :: "byte list \<Rightarrow> string" where
  "hexlify bs = concat (map (\<lambda>b. [hexdigit (unat b div 16), hexdigit (unat b mod 16)]) bs)"

definition encode_hex :: "byte list \<Rightarrow> string" where
  "encode_hex bs = ''0x'' @ hexlify bs"

definition hexval :: "char \<Rightarrow> nat option" where
  "hexval c =
     (let n = (of_char c :: nat)
      in if 48 \<le> n \<and> n \<le> 57 then Some (n - 48)
         else if 97 \<le> n \<and> n \<le> 102 then Some (n - 87)
         else if 65 \<le> n \<and> n \<le> 70 then Some (n - 55)
         else None)"

fun unhexlify :: "string \<Rightarrow> byte list option" where
  "unhexlify [] = Some []"
| "unhexlify [c] = None"
| "unhexlify (c1 # c2 # cs) =
     (case hexval c1 of
        None \<Rightarrow> None
      | Some hi \<Rightarrow>
          (case hexval c2 of
             None \<Rightarrow> None
           | Some lo \<Rightarrow>
               (case unhexlify cs of
                  None \<Rightarrow> None
                | Some bs \<Rightarrow> Some (of_nat (16 * hi + lo) # bs))))"

definition is_0x_prefixed :: "string \<Rightarrow> bool" where
  "is_0x_prefixed s = (starts_with ''0x'' s \<or> starts_with ''0X'' s)"

definition remove_0x_prefix :: "string \<Rightarrow> string" where
  "remove_0x_prefix s = (if is_0x_prefixed s then drop 2 s else s)"

definition add_0x_prefix :: "string \<Rightarrow> string" where
  "add_0x_prefix s = (if is_0x_prefixed s then s else ''0x'' @ s)"

definition HexBytes :: "string \<Rightarrow> byte list option" where
  "HexBytes s =
     (let h = remove_0x_prefix s;
          h = (if odd (length h) then CHR ''0'' # h else h)
      in unhexlify h)"

text \<open>
  Modelled from the spec: \<open>to_hex\<close> of \<open>web3/_utils/encoding.py\<close> is not among the
  source files. Section 4.5 of the spec: the output is the hex encoding "with a leading
  \<open>0x\<close>".
\<close>

definition to_hex :: "byte list \<Rightarrow> string" where
  "to_hex bs = encode_hex bs"

text \<open>
  \<open>function_abi_to_4byte_selector\<close> of \<open>eth_utils\<close>: the first four bytes of the hash
  of the signature with its spaces removed. The hash function is a parameter.
\<close>

definition function_abi_to_4byte_selector ::
  "(string \<Rightarrow> byte list) \<Rightarrow> abi_entry \<Rightarrow> error + byte list" where
  "function_abi_to_4byte_selector keccak function_abi =
     (case abi_to_signature function_abi of
        Inl e \<Rightarrow> Inl e
      | Inr function_signature \<Rightarrow>
          Inr (take 4 (keccak (filter (\<lambda>c. c \<noteq> CHR '' '') function_signature))))"

section \<open>The encoder\<close>

text \<open>
  \<open>encode_abi\<close>, lines 157 to 187. \<open>data\<close> is an optional text; \<open>if data\<close> is
  false for \<open>None\<close> and for the empty text.
\<close>

definition encode_abi ::
  "'v web3 \<Rightarrow> abi_entry \<Rightarrow> 'v list \<Rightarrow> string option \<Rightarrow> error + string" where
  "encode_abi w3 abi arguments data =
     (let argument_types = get_abi_input_types abi
      in if \<not> check_if_arguments_can_be_encoded abi (codec w3) arguments []
         then Inl (ArgumentsNotEncodable argument_types)
         else
           (case map_abi_data_normalizers w3 argument_types arguments of
              None \<Rightarrow> Inl NormalizerRaised
            | Some normalized_arguments \<Rightarrow>
                (case codec_encode_abi (codec w3) argument_types normalized_arguments of
                   None \<Rightarrow> Inl CodecRaised
                 | Some encoded_arguments \<Rightarrow>
                     (case data of
                        None \<Rightarrow> Inr (encode_hex encoded_arguments)
                      | Some d \<Rightarrow>
                          if d \<noteq> []
                          then (case HexBytes d of
                                  None \<Rightarrow> Inl InvalidHexData
                                | Some prefix \<Rightarrow> Inr (to_hex (prefix @ encoded_arguments)))
                          else Inr (encode_hex encoded_arguments)))))"

text \<open>\<open>get_fallback_function_info\<close> and \<open>get_receive_function_info\<close>, lines 256 to 273.\<close>

definition get_fallback_function_info ::
  "abi_entry list \<Rightarrow> abi_entry option \<Rightarrow> error + (abi_entry \<times> string \<times> 'v list)" where
  "get_fallback_function_info contract_abi fn_abi =
     (case (case fn_abi of None \<Rightarrow> get_fallback_func_abi contract_abi | Some a \<Rightarrow> Inr a) of
        Inl e \<Rightarrow> Inl e
      | Inr fn_abi \<Rightarrow> Inr (fn_abi, encode_hex [], []))"

definition get_receive_function_info ::
  "abi_entry list \<Rightarrow> abi_entry option \<Rightarrow> error + (abi_entry \<times> string \<times> 'v list)" where
  "get_receive_function_info contract_abi fn_abi =
     (case (case fn_abi of None \<Rightarrow> get_receive_func_abi contract_abi | Some a \<Rightarrow> Inr a) of
        Inl e \<Rightarrow> Inl e
      | Inr fn_abi \<Rightarrow> Inr (fn_abi, encode_hex [], []))"

text \<open>\<open>get_function_info\<close>, lines 276 to 300.\<close>

definition get_function_info ::
  "(string \<Rightarrow> byte list) \<Rightarrow> string \<Rightarrow> 'v abi_codec \<Rightarrow> abi_entry list \<Rightarrow> abi_entry option \<Rightarrow>
   'v list option \<Rightarrow> (string \<times> 'v) list option \<Rightarrow> error + (abi_entry \<times> string \<times> 'v list)" where
  "get_function_info keccak fn_name abi_codec contract_abi fn_abi args kwargs =
     (let args = (case args of None \<Rightarrow> [] | Some a \<Rightarrow> a);
          kwargs = (case kwargs of None \<Rightarrow> [] | Some k \<Rightarrow> k)
      in case (case fn_abi of
                 None \<Rightarrow> find_matching_fn_abi contract_abi abi_codec (Text fn_name)
                           (Some args) (Some kwargs)
               | Some a \<Rightarrow> Inr a) of
           Inl e \<Rightarrow> Inl e
         | Inr fn_abi \<Rightarrow>
             (case function_abi_to_4byte_selector keccak fn_abi of
                Inl e \<Rightarrow> Inl e
              | Inr selector \<Rightarrow>
                  (let fn_selector = encode_hex selector
                   in case merge_args_and_kwargs fn_abi args kwargs of
                        Inl e \<Rightarrow> Inl e
                      | Inr fn_arguments \<Rightarrow>
                          Inr (fn_abi, fn_selector,
                               snd (get_aligned_abi_inputs fn_abi fn_arguments)))))"

text \<open>\<open>encode_transaction_data\<close>, lines 233 to 253.\<close>

definition encode_transaction_data ::
  "(string \<Rightarrow> byte list) \<Rightarrow> 'v web3 \<Rightarrow> fn_identifier \<Rightarrow> abi_entry list \<Rightarrow> abi_entry option \<Rightarrow>
   'v list option \<Rightarrow> (string \<times> 'v) list option \<Rightarrow> error + string" where
  "encode_transaction_data keccak w3 fn_identifier contract_abi fn_abi args kwargs =
     (case (case fn_identifier of
              FallbackFn \<Rightarrow> get_fallback_function_info contract_abi fn_abi
            | ReceiveFn \<Rightarrow> get_receive_function_info contract_abi fn_abi
            | Text fn_name \<Rightarrow>
                get_function_info keccak fn_name (codec w3) contract_abi fn_abi args kwargs
            | OtherIdentifier \<Rightarrow> Inl UnsupportedFunctionIdentifier) of
        Inl e \<Rightarrow> Inl e
      | Inr (fn_abi, fn_selector, fn_arguments) \<Rightarrow>
          (case encode_abi w3 fn_abi fn_arguments (Some fn_selector) of
             Inl e \<Rightarrow> Inl e
           | Inr encoded \<Rightarrow> Inr (add_0x_prefix encoded)))"

section \<open>The transaction assembler\<close>

text \<open>
  A transaction (\<open>TxParams\<close>) is a dictionary from field names to values. Dictionaries
  are mutable objects: the store is a list of dictionaries and a reference is an index
  into it. \<open>dict(**transaction)\<close> allocates a new dictionary at the end of the store.
\<close>

datatype tx_value = TxInt int | TxStr string

type_synonym tx_params = "string \<Rightarrow> tx_value option"

type_synonym store = "tx_params list"

text \<open>
  \<open>validate_payable\<close>, lines 303 to 314. It only reads the dictionary, so it takes
  its content; \<open>'value' in transaction\<close> on \<open>None\<close> raises \<open>TypeError\<close>.
\<close>

definition validate_payable :: "tx_params option \<Rightarrow> abi_entry \<Rightarrow> error + unit" where
  "validate_payable transaction abi =
     (case transaction of
        None \<Rightarrow> Inl NoneTypeNotIterable
      | Some tx \<Rightarrow>
          (case tx ''value'' of
             None \<Rightarrow> Inr ()
           | Some v \<Rightarrow>
               if v \<noteq> TxInt 0
               then (case abi_payable abi of
                       None \<Rightarrow> Inr ()
                     | Some p \<Rightarrow> if \<not> p then Inl NonZeroEtherNotPayable else Inr ())
               else Inr ()))"

text \<open>
  \<open>prepare_transaction\<close>, lines 190 to 230. The result is the outcome (an error, or
  the reference of the prepared transaction) and the store after the call.
\<close>

definition prepare_transaction ::
  "(string \<Rightarrow> byte list) \<Rightarrow> string \<Rightarrow> 'v web3 \<Rightarrow> fn_identifier \<Rightarrow> abi_entry list \<Rightarrow>
   abi_entry option \<Rightarrow> nat option \<Rightarrow> 'v list option \<Rightarrow> (string \<times> 'v) list option \<Rightarrow>
   store \<Rightarrow> (error + nat) \<times> store" where
  "prepare_transaction keccak address w3 fn_identifier contract_abi fn_abi transaction
     fn_args fn_kwargs s =
     (case (case fn_abi of
              None \<Rightarrow> find_matching_fn_abi contract_abi (codec w3) fn_identifier fn_args fn_kwargs
            | Some a \<Rightarrow> Inr a) of
        Inl e \<Rightarrow> (Inl e, s)
      | Inr fn_abi \<Rightarrow>
          (case validate_payable (map_option (\<lambda>r. s ! r) transaction) fn_abi of
             Inl e \<Rightarrow> (Inl e, s)
           | Inr u \<Rightarrow>
               (let prepared_transaction = length s;
                    s1 = s @ [case transaction of None \<Rightarrow> Map.empty | Some r \<Rightarrow> s ! r]
                in if (s1 ! prepared_transaction) ''data'' \<noteq> None
                   then (Inl DataKeyPresent, s1)
                   else
                     (let s2 = (if address \<noteq> [] \<and> (s1 ! prepared_transaction) ''to'' = None
                                then s1[prepared_transaction :=
                                          (s1 ! prepared_transaction)(''to'' \<mapsto> TxStr address)]
                                else s1)
                      in case encode_transaction_data keccak w3 fn_identifier contract_abi
                                (Some fn_abi) fn_args fn_kwargs of
                           Inl e \<Rightarrow> (Inl e, s2)
                         | Inr data \<Rightarrow>
                             (Inr prepared_transaction,
                              s2[prepared_transaction :=
                                   (s2 ! prepared_transaction)(''data'' \<mapsto> TxStr data)])))))"

section \<open>Example inputs\<close>

text \<open>
  The ABI of section 8 of the spec: two overloads \<open>f(uint256)\<close> and \<open>f(int256)\<close>, and
  beside them a function without inputs, an event and a fallback entry. The example codec
  works on integers: an unsigned type accepts the non-negative ones.
\<close>

abbreviation example_f_uint :: abi_entry where
  "example_f_uint \<equiv>
     \<lparr>abi_type = ''function'', abi_name = Some ''f'',
      abi_inputs = [AbiParam (Some ''x'') ''uint256'' []], abi_payable = Some False\<rparr>"

abbreviation example_f_int :: abi_entry where
  "example_f_int \<equiv>
     \<lparr>abi_type = ''function'', abi_name = Some ''f'',
      abi_inputs = [AbiParam (Some ''x'') ''int256'' []], abi_payable = Some False\<rparr>"

abbreviation example_g :: abi_entry where
  "example_g \<equiv>
     \<lparr>abi_type = ''function'', abi_name = Some ''g'', abi_inputs = [], abi_payable = None\<rparr>"

abbreviation example_event :: abi_entry where
  "example_event \<equiv>
     \<lparr>abi_type = ''event'', abi_name = Some ''Moved'',
      abi_inputs = [AbiParam (Some ''who'') ''address'' [], AbiParam (Some ''n'') ''uint256'' []],
      abi_payable = None\<rparr>"

abbreviation example_fallback :: abi_entry where
  "example_fallback \<equiv>
     \<lparr>abi_type = ''fallback'', abi_name = None, abi_inputs = [], abi_payable = Some True\<rparr>"

abbreviation example_abi :: "abi_entry list" where
  "example_abi \<equiv> [example_f_uint, example_f_int, example_g, example_event, example_fallback]"

abbreviation example_codec :: "int abi_codec" where
  "example_codec \<equiv>
     \<lparr>is_encodable = (\<lambda>t v. if t = ''uint256'' then 0 \<le> v else t = ''int256''),
      codec_encode_abi = (\<lambda>ts vs. Some (map (\<lambda>v. if v = 1 then 1 else 0) vs))\<rparr>"

abbreviation example_w3 :: "int web3" where
  "example_w3 \<equiv> \<lparr>codec = example_codec, map_abi_data_normalizers = (\<lambda>ts vs. Some vs)\<rparr>"

abbreviation example_keccak :: "string \<Rightarrow> byte list" where
  "example_keccak \<equiv> (\<lambda>s. [169, 5, 156, 187, 42, 176])"

section \<open>Properties of the filters\<close>

lemma check_if_arguments_can_be_encoded_count:
  "check_if_arguments_can_be_encoded e c a k \<Longrightarrow> length (abi_inputs e) = length a + length k"
  by (auto simp: check_if_arguments_can_be_encoded_def merge_args_and_kwargs_def
      split: sum.splits if_splits)

lemma encodability_after_count:
  "filter_by_encodability c a k (filter_by_argument_count (length a + length k) xs)
     = filter_by_encodability c a k xs"
  unfolding filter_by_encodability_def filter_by_argument_count_def
  by (auto intro!: filter_cong dest: check_if_arguments_can_be_encoded_count)

lemma signatures_of_named:
  "\<forall>e \<in> set es. abi_name e = Some n \<Longrightarrow>
   signatures_of es = Inr (map (\<lambda>e. n @ ''('' @ join '','' (get_abi_input_types e) @ '')'') es)"
  by (induction es) (auto simp: abi_to_signature_def)

lemma signatures_of_filter_by_name:
  "signatures_of (filter_by_name n abi)
     = Inr (map (\<lambda>e. n @ ''('' @ join '','' (get_abi_input_types e) @ '')'') (filter_by_name n abi))"
  by (rule signatures_of_named) (simp add: filter_by_name_def)

lemmas filter_defs =
  filter_by_type_def filter_by_name_def filter_by_argument_count_def filter_by_argument_name_def
  filter_by_encodability_def check_if_arguments_can_be_encoded_def merge_args_and_kwargs_def
  get_aligned_abi_inputs_def get_abi_input_types_def get_abi_input_names_def starts_with_def

section \<open>Event resolution\<close>

text \<open>
  C6. \<open>find_matching_event_abi\<close> runs the kind filter, then the name filter when a name
  is given, then the argument-name filter when argument names are given. It returns the
  surviving entry when exactly one survives, fails with "No matching events found" when
  none survives and with "Multiple events found" when more than one survives.
\<close>

theorem find_matching_event_abi_outcome:
  "find_matching_event_abi abi event_name argument_names =
     (case (case argument_names of None \<Rightarrow> (\<lambda>x. x) | Some ns \<Rightarrow> filter_by_argument_name ns)
             ((case event_name of None \<Rightarrow> (\<lambda>x. x) | Some n \<Rightarrow> filter_by_name n)
                (filter_by_type ''event'' abi)) of
        [] \<Rightarrow> Inl NoMatchingEventsFound
      | [e] \<Rightarrow> Inr e
      | e # e' # es \<Rightarrow> Inl MultipleEventsFound)"
  by (simp add: find_matching_event_abi_def Let_def split: option.splits list.splits)

theorem find_matching_event_abi_outcome_witness:
  "find_matching_event_abi example_abi (Some ''Moved'') (Some [''n'']) = Inr example_event"
  using find_matching_event_abi_outcome [of example_abi "Some ''Moved''" "Some [''n'']"]
  by (simp add: filter_defs)

section \<open>Function resolution\<close>

text \<open>
  C1. For a text identifier, \<open>find_matching_fn_abi\<close> returns an entry exactly when one
  candidate survives the chain of the name filter, the argument-count filter and the
  encodability filter. In every other case it raises the \<open>ValidationError\<close> with the
  diagnosis of the re-probed stages: improper number of arguments when no name match
  survives the count filter, else no matching argument types when no name match survives
  the encodability filter, else ambiguous encoding, and then more than one name match
  survives the encodability filter. The unbound-diagnosis branch is never reached.
\<close>

theorem find_matching_fn_abi_outcome:
  "find_matching_fn_abi abi abi_codec (Text name) args kwargs =
     (let a = (case args of None \<Rightarrow> [] | Some x \<Rightarrow> x);
          k = (case kwargs of None \<Rightarrow> [] | Some x \<Rightarrow> x);
          named = filter_by_name name abi;
          counted = filter_by_argument_count (length a + length k) named;
          survivors = filter_by_encodability abi_codec a k counted
      in if length survivors = 1 then Inr (survivors ! 0)
         else Inl (CouldNotIdentifyFunction name (length named)
                     (map (\<lambda>e. name @ ''('' @ join '','' (get_abi_input_types e) @ '')'') named)
                     (if counted = [] then ImproperNumberOfArguments
                      else if filter_by_encodability abi_codec a k named = []
                      then NoMatchingArgumentTypes
                      else AmbiguousArgumentEncoding)))
   \<and> (let a = (case args of None \<Rightarrow> [] | Some x \<Rightarrow> x);
          k = (case kwargs of None \<Rightarrow> [] | Some x \<Rightarrow> x);
          named = filter_by_name name abi;
          counted = filter_by_argument_count (length a + length k) named;
          survivors = filter_by_encodability abi_codec a k counted
      in length survivors \<noteq> 1 \<longrightarrow>
           (\<exists>e. find_matching_fn_abi abi abi_codec (Text name) args kwargs = Inl e \<and>
                exception_class_of e = ValidationError) \<and>
           (counted \<noteq> [] \<longrightarrow> filter_by_encodability abi_codec a k named \<noteq> [] \<longrightarrow>
              1 < length (filter_by_encodability abi_codec a k named)))"
proof -
  define a where "a = (case args of None \<Rightarrow> [] | Some x \<Rightarrow> x)"
  define k where "k = (case kwargs of None \<Rightarrow> [] | Some x \<Rightarrow> x)"
  define named where "named = filter_by_name name abi"
  have same: "filter_by_encodability abi_codec a k
                (filter_by_argument_count (length a + length k) named)
              = filter_by_encodability abi_codec a k named"
    by (rule encodability_after_count)
  have sigs: "signatures_of named
     = Inr (map (\<lambda>e. name @ ''('' @ join '','' (get_abi_input_types e) @ '')'') named)"
    unfolding named_def by (rule signatures_of_filter_by_name)
  have more: "length (filter_by_encodability abi_codec a k named) \<noteq> 1 \<Longrightarrow>
        filter_by_encodability abi_codec a k named \<noteq> [] \<Longrightarrow>
        1 < length (filter_by_encodability abi_codec a k named)"
    by (cases "filter_by_encodability abi_codec a k named") auto
  have eq: "find_matching_fn_abi abi abi_codec (Text name) args kwargs =
     (if length (filter_by_encodability abi_codec a k named) = 1
      then Inr (filter_by_encodability abi_codec a k named ! 0)
      else Inl (CouldNotIdentifyFunction name (length named)
                  (map (\<lambda>e. name @ ''('' @ join '','' (get_abi_input_types e) @ '')'') named)
                  (if filter_by_argument_count (length a + length k) named = []
                   then ImproperNumberOfArguments
                   else if filter_by_encodability abi_codec a k named = []
                   then NoMatchingArgumentTypes
                   else AmbiguousArgumentEncoding)))"
    using more
    unfolding find_matching_fn_abi_def Let_def a_def [symmetric] k_def [symmetric]
    by (simp add: same sigs named_def [symmetric])
  show ?thesis
    unfolding Let_def a_def [symmetric] k_def [symmetric] named_def [symmetric] same
    using more by (simp add: eq)
qed

theorem find_matching_fn_abi_outcome_witness:
  "find_matching_fn_abi example_abi example_codec (Text ''f'') (Some [1]) None
     = Inl (CouldNotIdentifyFunction ''f'' 2 [''f(uint256)'', ''f(int256)'']
              AmbiguousArgumentEncoding)
   \<and> find_matching_fn_abi example_abi example_codec (Text ''f'') (Some [- 1]) None
     = Inr example_f_int"
  using find_matching_fn_abi_outcome [of example_abi example_codec "''f''" "Some [1]" None]
    find_matching_fn_abi_outcome [of example_abi example_codec "''f''" "Some [- 1]" None]
  by (simp add: filter_defs)

section \<open>Encoding\<close>

lemma hexval_hexdigit: "n < 16 \<Longrightarrow> hexval (hexdigit n) = Some n"
proof -
  assume "n < 16"
  then have "n = 0 \<or> n = 1 \<or> n = 2 \<or> n = 3 \<or> n = 4 \<or> n = 5 \<or> n = 6 \<or> n = 7 \<or>
      n = 8 \<or> n = 9 \<or> n = 10 \<or> n = 11 \<or> n = 12 \<or> n = 13 \<or> n = 14 \<or> n = 15"
    by arith
  then show ?thesis
    by (elim disjE) (simp_all add: hexval_def hexdigit_def)
qed

lemma byte_div_16: "unat (b::byte) div 16 < 16"
proof -
  have "unat b < 256" using unsigned_less [of b, where ?'a = nat] by simp
  then show ?thesis by simp
qed

lemma unhexlify_hexlify: "unhexlify (hexlify bs) = Some bs"
  by (induction bs) (simp_all add: hexlify_def hexval_hexdigit byte_div_16)

lemma length_hexlify: "length (hexlify bs) = 2 * length bs"
  by (induction bs) (simp_all add: hexlify_def)

lemma HexBytes_encode_hex: "HexBytes (encode_hex bs) = Some bs"
  by (simp add: HexBytes_def encode_hex_def remove_0x_prefix_def is_0x_prefixed_def
      starts_with_def length_hexlify unhexlify_hexlify)

lemma add_0x_prefix_encode_hex: "add_0x_prefix (encode_hex bs) = encode_hex bs"
  by (simp add: add_0x_prefix_def encode_hex_def is_0x_prefixed_def starts_with_def)

lemma encode_hex_not_empty: "encode_hex bs \<noteq> []"
  by (simp add: encode_hex_def)

lemma encode_abi_with_selector:
  assumes "check_if_arguments_can_be_encoded abi (codec w3) arguments []"
    and "map_abi_data_normalizers w3 (get_abi_input_types abi) arguments = Some normalized"
    and "codec_encode_abi (codec w3) (get_abi_input_types abi) normalized = Some encoded"
  shows "encode_abi w3 abi arguments (Some (encode_hex selector))
           = Inr (encode_hex (selector @ encoded))"
  using assms
  by (simp add: encode_abi_def Let_def encode_hex_not_empty HexBytes_encode_hex to_hex_def)

text \<open>
  C2. For a function entry (an entry with a name) and arguments that merge against it,
  pass the encodability check and are normalized and encoded by the codec, the call data
  of \<open>encode_transaction_data\<close> is \<open>0x\<close> followed by the hexadecimal digits of the
  selector (the first four bytes of the hash of the signature: name, parenthesised
  comma-joined input types, spaces removed) and then of the codec's encoding of the
  normalized arguments, and nothing else. For the fallback and the receive entry the
  selector is empty.
\<close>

theorem encode_transaction_data_layout:
  "((case fn_abi of
       None \<Rightarrow> find_matching_fn_abi contract_abi (codec w3) (Text fn_name)
                 (Some (case args of None \<Rightarrow> [] | Some a \<Rightarrow> a))
                 (Some (case kwargs of None \<Rightarrow> [] | Some k \<Rightarrow> k))
     | Some a \<Rightarrow> Inr a) = Inr entry \<longrightarrow>
    abi_name entry = Some name \<longrightarrow>
    merge_args_and_kwargs entry (case args of None \<Rightarrow> [] | Some a \<Rightarrow> a)
      (case kwargs of None \<Rightarrow> [] | Some k \<Rightarrow> k) = Inr arguments \<longrightarrow>
    check_if_arguments_can_be_encoded entry (codec w3) arguments [] \<longrightarrow>
    map_abi_data_normalizers w3 (get_abi_input_types entry) arguments = Some normalized \<longrightarrow>
    codec_encode_abi (codec w3) (get_abi_input_types entry) normalized = Some encoded \<longrightarrow>
    encode_transaction_data keccak w3 (Text fn_name) contract_abi fn_abi args kwargs
      = Inr (''0x'' @ hexlify
               (take 4 (keccak (filter (\<lambda>c. c \<noteq> CHR '' '')
                                  (name @ ''('' @ join '','' (get_abi_input_types entry) @ '')'')))
                @ encoded)))
   \<and> ((case fn_abi of None \<Rightarrow> get_fallback_func_abi contract_abi | Some a \<Rightarrow> Inr a) = Inr entry \<longrightarrow>
    check_if_arguments_can_be_encoded entry (codec w3) [] [] \<longrightarrow>
    map_abi_data_normalizers w3 (get_abi_input_types entry) [] = Some normalized \<longrightarrow>
    codec_encode_abi (codec w3) (get_abi_input_types entry) normalized = Some encoded \<longrightarrow>
    encode_transaction_data keccak w3 FallbackFn contract_abi fn_abi args kwargs
      = Inr (''0x'' @ hexlify ([] @ encoded)))
   \<and> ((case fn_abi of None \<Rightarrow> get_receive_func_abi contract_abi | Some a \<Rightarrow> Inr a) = Inr entry \<longrightarrow>
    check_if_arguments_can_be_encoded entry (codec w3) [] [] \<longrightarrow>
    map_abi_data_normalizers w3 (get_abi_input_types entry) [] = Some normalized \<longrightarrow>
    codec_encode_abi (codec w3) (get_abi_input_types entry) normalized = Some encoded \<longrightarrow>
    encode_transaction_data keccak w3 ReceiveFn contract_abi fn_abi args kwargs
      = Inr (''0x'' @ hexlify ([] @ encoded)))"
proof (intro conjI impI)
  assume res: "(case fn_abi of
       None \<Rightarrow> find_matching_fn_abi contract_abi (codec w3) (Text fn_name)
                 (Some (case args of None \<Rightarrow> [] | Some a \<Rightarrow> a))
                 (Some (case kwargs of None \<Rightarrow> [] | Some k \<Rightarrow> k))
     | Some a \<Rightarrow> Inr a) = Inr entry"
    and nm: "abi_name entry = Some name"
    and mg: "merge_args_and_kwargs entry (case args of None \<Rightarrow> [] | Some a \<Rightarrow> a)
      (case kwargs of None \<Rightarrow> [] | Some k \<Rightarrow> k) = Inr arguments"
    and ck: "check_if_arguments_can_be_encoded entry (codec w3) arguments []"
    and no: "map_abi_data_normalizers w3 (get_abi_input_types entry) arguments = Some normalized"
    and en: "codec_encode_abi (codec w3) (get_abi_input_types entry) normalized = Some encoded"
  have info: "get_function_info keccak fn_name (codec w3) contract_abi fn_abi args kwargs
      = Inr (entry,
             encode_hex (take 4 (keccak (filter (\<lambda>c. c \<noteq> CHR '' '')
                                  (name @ ''('' @ join '','' (get_abi_input_types entry) @ '')'')))),
             arguments)"
    using res nm mg
    by (simp add: get_function_info_def Let_def function_abi_to_4byte_selector_def
        abi_to_signature_def get_aligned_abi_inputs_def)
  show "encode_transaction_data keccak w3 (Text fn_name) contract_abi fn_abi args kwargs
      = Inr (''0x'' @ hexlify
               (take 4 (keccak (filter (\<lambda>c. c \<noteq> CHR '' '')
                                  (name @ ''('' @ join '','' (get_abi_input_types entry) @ '')'')))
                @ encoded))"
    by (simp add: encode_transaction_data_def info encode_abi_with_selector [OF ck no en]
        add_0x_prefix_encode_hex)
      (simp add: encode_hex_def)
next
  assume res: "(case fn_abi of None \<Rightarrow> get_fallback_func_abi contract_abi | Some a \<Rightarrow> Inr a)
             = Inr entry"
    and ck: "check_if_arguments_can_be_encoded entry (codec w3) [] []"
    and no: "map_abi_data_normalizers w3 (get_abi_input_types entry) [] = Some normalized"
    and en: "codec_encode_abi (codec w3) (get_abi_input_types entry) normalized = Some encoded"
  show "encode_transaction_data keccak w3 FallbackFn contract_abi fn_abi args kwargs
      = Inr (''0x'' @ hexlify ([] @ encoded))"
    using res
    by (simp add: encode_transaction_data_def get_fallback_function_info_def
        encode_abi_with_selector [OF ck no en] add_0x_prefix_encode_hex)
      (simp add: encode_hex_def)
next
  assume res: "(case fn_abi of None \<Rightarrow> get_receive_func_abi contract_abi | Some a \<Rightarrow> Inr a)
             = Inr entry"
    and ck: "check_if_arguments_can_be_encoded entry (codec w3) [] []"
    and no: "map_abi_data_normalizers w3 (get_abi_input_types entry) [] = Some normalized"
    and en: "codec_encode_abi (codec w3) (get_abi_input_types entry) normalized = Some encoded"
  show "encode_transaction_data keccak w3 ReceiveFn contract_abi fn_abi args kwargs
      = Inr (''0x'' @ hexlify ([] @ encoded))"
    using res
    by (simp add: encode_transaction_data_def get_receive_function_info_def
        encode_abi_with_selector [OF ck no en] add_0x_prefix_encode_hex)
      (simp add: encode_hex_def)
qed

theorem encode_transaction_data_layout_witness:
  "encode_transaction_data example_keccak example_w3 (Text ''f'') example_abi None
     (Some [- 1]) None = Inr ''0xa9059cbb00''
   \<and> encode_transaction_data example_keccak example_w3 FallbackFn example_abi None
     (Some [7]) None = Inr ''0x''"
  using encode_transaction_data_layout
    [where fn_abi = None and contract_abi = example_abi and ?w3.0 = example_w3
       and fn_name = "''f''" and args = "Some [- 1]" and kwargs = None
       and entry = example_f_int and name = "''f''" and arguments = "[- 1]"
       and normalized = "[- 1]" and encoded = "[0]" and keccak = example_keccak]
    encode_transaction_data_layout
    [where fn_abi = None and contract_abi = example_abi and ?w3.0 = example_w3
       and fn_name = "''f''" and args = "Some [7]" and kwargs = None
       and entry = example_fallback and name = "''f''" and arguments = "[]"
       and normalized = "[]" and encoded = "[]" and keccak = example_keccak]
  by (simp add: filter_defs get_fallback_func_abi_def find_matching_fn_abi_def hexlify_def hexdigit_def)

lemma check_if_arguments_can_be_encoded_cong:
  "is_encodable c' = is_encodable c \<Longrightarrow>
   check_if_arguments_can_be_encoded abi c' args kwargs
     = check_if_arguments_can_be_encoded abi c args kwargs"
  by (simp add: check_if_arguments_can_be_encoded_def split: sum.splits prod.splits)

text \<open>
  C7. \<open>encode_abi\<close> raises its not-encodable \<open>TypeError\<close> exactly when the
  arguments fail the encodability check against the entry's declared input types. The
  check comes first: on that path the outcome is the same whatever the normalizers and
  the codec's encoder would do, even when they would raise.
\<close>

theorem encode_abi_not_encodable:
  "((\<exists>ts. encode_abi w3 abi arguments data = Inl (ArgumentsNotEncodable ts))
      = (\<not> check_if_arguments_can_be_encoded abi (codec w3) arguments []))
   \<and> (\<not> check_if_arguments_can_be_encoded abi (codec w3) arguments [] \<longrightarrow>
        (\<forall>w3'. is_encodable (codec w3') = is_encodable (codec w3) \<longrightarrow>
           encode_abi w3' abi arguments data
             = Inl (ArgumentsNotEncodable (get_abi_input_types abi))))"
proof (intro conjI impI allI)
  show "(\<exists>ts. encode_abi w3 abi arguments data = Inl (ArgumentsNotEncodable ts))
      = (\<not> check_if_arguments_can_be_encoded abi (codec w3) arguments [])"
    by (auto simp: encode_abi_def Let_def split: option.splits)
next
  fix w3' :: "'a web3"
  assume no: "\<not> check_if_arguments_can_be_encoded abi (codec w3) arguments []"
    and same: "is_encodable (codec w3') = is_encodable (codec w3)"
  have "\<not> check_if_arguments_can_be_encoded abi (codec w3') arguments []"
    using no check_if_arguments_can_be_encoded_cong [OF same] by simp
  then show "encode_abi w3' abi arguments data
      = Inl (ArgumentsNotEncodable (get_abi_input_types abi))"
    by (simp add: encode_abi_def)
qed

theorem encode_abi_not_encodable_witness:
  "encode_abi \<lparr>codec = \<lparr>is_encodable = is_encodable example_codec,
                         codec_encode_abi = (\<lambda>ts vs. None)\<rparr>,
               map_abi_data_normalizers = (\<lambda>ts vs. None)\<rparr>
     example_f_uint [- 1] None = Inl (ArgumentsNotEncodable [''uint256''])
   \<and> encode_abi example_w3 example_f_uint [1] None = Inr ''0x01''"
  using encode_abi_not_encodable
    [where ?w3.0 = example_w3 and abi = example_f_uint and arguments = "[- 1]" and data = None,
     THEN conjunct2, rule_format,
     of "\<lparr>codec = \<lparr>is_encodable = is_encodable example_codec,
                         codec_encode_abi = (\<lambda>ts vs. None)\<rparr>,
         map_abi_data_normalizers = (\<lambda>ts vs. None)\<rparr>"]
  by (simp add: filter_defs encode_abi_def encode_hex_def hexlify_def hexdigit_def)

text \<open>
  C10. For the fallback and the receive marker \<open>find_matching_fn_abi\<close> returns what the
  sentinel lookup returns, whatever arguments and codec are passed, and
  \<open>encode_transaction_data\<close> encodes the empty argument list after the empty selector:
  its outcome does not depend on the positional and keyword arguments either.
\<close>

theorem fallback_receive_ignore_arguments:
  "find_matching_fn_abi abi abi_codec FallbackFn args kwargs = get_fallback_func_abi abi
   \<and> find_matching_fn_abi abi abi_codec ReceiveFn args kwargs = get_receive_func_abi abi
   \<and> encode_transaction_data keccak w3 FallbackFn abi fn_abi args kwargs
       = (case (case fn_abi of None \<Rightarrow> get_fallback_func_abi abi | Some a \<Rightarrow> Inr a) of
            Inl e \<Rightarrow> Inl e
          | Inr entry \<Rightarrow>
              (case encode_abi w3 entry [] (Some (encode_hex [])) of
                 Inl e \<Rightarrow> Inl e
               | Inr encoded \<Rightarrow> Inr (add_0x_prefix encoded)))
   \<and> encode_transaction_data keccak w3 ReceiveFn abi fn_abi args kwargs
       = (case (case fn_abi of None \<Rightarrow> get_receive_func_abi abi | Some a \<Rightarrow> Inr a) of
            Inl e \<Rightarrow> Inl e
          | Inr entry \<Rightarrow>
              (case encode_abi w3 entry [] (Some (encode_hex [])) of
                 Inl e \<Rightarrow> Inl e
               | Inr encoded \<Rightarrow> Inr (add_0x_prefix encoded)))
   \<and> HexBytes (encode_hex []) = Some []"
  by (simp add: find_matching_fn_abi_def encode_transaction_data_def
      get_fallback_function_info_def get_receive_function_info_def HexBytes_encode_hex
      split: sum.splits)

theorem fallback_receive_ignore_arguments_witness:
  "find_matching_fn_abi example_abi example_codec FallbackFn (Some [1, 2, 3]) (Some [(''x'', 4)])
     = Inr example_fallback
   \<and> encode_transaction_data example_keccak example_w3 FallbackFn example_abi None
       (Some [1, 2, 3]) (Some [(''x'', 4)]) = Inr ''0x''"
  using fallback_receive_ignore_arguments
    [where abi = example_abi and abi_codec = example_codec and args = "Some [1, 2, 3]"
       and kwargs = "Some [(''x'', 4)]" and keccak = example_keccak and ?w3.0 = example_w3
       and fn_abi = None]
  by (simp add: filter_defs get_fallback_func_abi_def encode_abi_def encode_hex_def hexlify_def
      add_0x_prefix_def is_0x_prefixed_def HexBytes_def remove_0x_prefix_def to_hex_def)

section \<open>The transaction assembler: properties\<close>

lemma validate_payable_Some:
  "validate_payable (Some tx) abi =
     (if tx ''value'' \<noteq> None \<and> tx ''value'' \<noteq> Some (TxInt 0) \<and> abi_payable abi = Some False
      then Inl NonZeroEtherNotPayable else Inr ())"
  by (auto simp: validate_payable_def split: option.splits)

text \<open>
  C3, as the code has it. A transaction whose \<open>value\<close> is absent or \<open>0\<close> passes
  \<open>validate_payable\<close> whatever the entry's \<open>payable\<close> flag. A non-zero \<open>value\<close>
  fails with the \<open>ValidationError\<close> when the entry carries the flag and the flag is
  false, and then \<open>prepare_transaction\<close> raises it before it copies the transaction: the
  store is unchanged. An entry without the flag passes with any value.
\<close>

theorem validate_payable_explicit_flag:
  "(tx ''value'' = None \<or> tx ''value'' = Some (TxInt 0) \<longrightarrow> validate_payable (Some tx) abi = Inr ())
   \<and> (tx ''value'' = Some v \<and> v \<noteq> TxInt 0 \<and> abi_payable abi = Some False \<longrightarrow>
        validate_payable (Some tx) abi = Inl NonZeroEtherNotPayable \<and>
        exception_class_of NonZeroEtherNotPayable = ValidationError)
   \<and> (tx ''value'' = Some v \<and> v \<noteq> TxInt 0 \<and> abi_payable abi = Some False \<and>
        (case fn_abi of
           None \<Rightarrow> find_matching_fn_abi contract_abi (codec w3) fn_identifier fn_args fn_kwargs
         | Some a \<Rightarrow> Inr a) = Inr abi \<and> s ! r = tx \<longrightarrow>
        prepare_transaction keccak address w3 fn_identifier contract_abi fn_abi (Some r)
          fn_args fn_kwargs s = (Inl NonZeroEtherNotPayable, s))
   \<and> (abi_payable abi = None \<longrightarrow> validate_payable (Some tx) abi = Inr ())"
  by (auto simp: validate_payable_Some prepare_transaction_def)

text \<open>
  C3 as stated fails. The entry \<open>g\<close> of the example ABI has no \<open>payable\<close> key, so it is not explicitly
  payable; a transaction with \<open>value = 1\<close> passes the validation and is prepared.
\<close>

theorem validate_payable_counterexample:
  "abi_payable example_g \<noteq> Some True
   \<and> validate_payable (Some (Map.empty(''value'' \<mapsto> TxInt 1))) example_g = Inr ()
   \<and> fst (prepare_transaction example_keccak ''0xabc'' example_w3 (Text ''g'') example_abi None
            (Some 0) None None [Map.empty(''value'' \<mapsto> TxInt 1)]) = Inr 1"
  by (simp add: validate_payable_def prepare_transaction_def filter_defs find_matching_fn_abi_def
      encode_transaction_data_def get_function_info_def function_abi_to_4byte_selector_def
      abi_to_signature_def encode_abi_def encode_hex_def hexlify_def hexdigit_def HexBytes_def
      hexval_def remove_0x_prefix_def is_0x_prefixed_def to_hex_def)

theorem validate_payable_explicit_flag_witness:
  "validate_payable (Some (Map.empty(''value'' \<mapsto> TxInt 1))) example_f_int
     = Inl NonZeroEtherNotPayable
   \<and> prepare_transaction example_keccak ''0xabc'' example_w3 (Text ''f'') example_abi None
       (Some 0) (Some [- 1]) None [Map.empty(''value'' \<mapsto> TxInt 1)]
     = (Inl NonZeroEtherNotPayable, [Map.empty(''value'' \<mapsto> TxInt 1)])
   \<and> validate_payable (Some (Map.empty(''value'' \<mapsto> TxInt 0))) example_f_uint = Inr ()"
proof -
  note nonzero = validate_payable_explicit_flag
    [where tx = "Map.empty(''value'' \<mapsto> TxInt 1)" and abi = example_f_int and v = "TxInt 1"
       and fn_abi = None and contract_abi = example_abi and ?w3.0 = example_w3
       and fn_identifier = "Text ''f''" and fn_args = "Some [- 1]" and fn_kwargs = None
       and s = "[Map.empty(''value'' \<mapsto> TxInt 1)]" and r = 0
       and keccak = example_keccak and address = "''0xabc''"]
  note zero = validate_payable_explicit_flag
    [where tx = "Map.empty(''value'' \<mapsto> TxInt 0)" and abi = example_f_uint and v = "TxInt 0"
       and fn_abi = None and contract_abi = example_abi and ?w3.0 = example_w3
       and fn_identifier = "Text ''f''" and fn_args = "Some [- 1]" and fn_kwargs = None
       and s = "[Map.empty(''value'' \<mapsto> TxInt 1)]" and r = 0
       and keccak = example_keccak and address = "''0xabc''"]
  have resolved: "find_matching_fn_abi example_abi example_codec (Text ''f'') (Some [- 1]) None
      = Inr example_f_int"
    by (simp add: filter_defs find_matching_fn_abi_def)
  show ?thesis
    using nonzero zero resolved by simp
qed


text \<open>
  C4, as the code has it. A base transaction that already has a \<open>data\<close> field always
  makes \<open>prepare_transaction\<close> fail. The failure is the data-conflict \<open>ValueError\<close>
  whenever the entry resolves and the payable validation passes; both run before the
  \<open>data\<close> key is looked at.
\<close>

theorem prepare_transaction_data_conflict:
  "(s ! r) ''data'' \<noteq> None \<longrightarrow>
     (\<exists>e. fst (prepare_transaction keccak address w3 fn_identifier contract_abi fn_abi (Some r)
                 fn_args fn_kwargs s) = Inl e) \<and>
     ((case fn_abi of
         None \<Rightarrow> find_matching_fn_abi contract_abi (codec w3) fn_identifier fn_args fn_kwargs
       | Some a \<Rightarrow> Inr a) = Inr abi \<and>
      validate_payable (Some (s ! r)) abi = Inr () \<longrightarrow>
      fst (prepare_transaction keccak address w3 fn_identifier contract_abi fn_abi (Some r)
             fn_args fn_kwargs s) = Inl DataKeyPresent)"
  by (auto simp: prepare_transaction_def Let_def split: sum.splits)

text \<open>
  C4 as stated fails. With a \<open>data\<close> field and \<open>value = 1\<close> against the non-payable \<open>f(int256)\<close>,
  the failure is the payable \<open>ValidationError\<close>, not the data conflict.
\<close>

theorem prepare_transaction_data_conflict_counterexample:
  "([Map.empty(''data'' \<mapsto> TxStr ''0x'', ''value'' \<mapsto> TxInt 1)] ! 0) ''data'' \<noteq> None
   \<and> fst (prepare_transaction example_keccak ''0xabc'' example_w3 (Text ''f'') example_abi None
            (Some 0) (Some [- 1]) None
            [Map.empty(''data'' \<mapsto> TxStr ''0x'', ''value'' \<mapsto> TxInt 1)])
       = Inl NonZeroEtherNotPayable"
  by (simp add: validate_payable_def prepare_transaction_def filter_defs find_matching_fn_abi_def)

theorem prepare_transaction_data_conflict_witness:
  "fst (prepare_transaction example_keccak ''0xabc'' example_w3 (Text ''f'') example_abi None
          (Some 0) (Some [- 1]) None
          [Map.empty(''data'' \<mapsto> TxStr ''0x'', ''value'' \<mapsto> TxInt 0)])
     = Inl DataKeyPresent"
proof -
  note conflict = prepare_transaction_data_conflict
    [where s = "[Map.empty(''data'' \<mapsto> TxStr ''0x'', ''value'' \<mapsto> TxInt 0)]" and r = 0
       and keccak = example_keccak and address = "''0xabc''" and ?w3.0 = example_w3
       and fn_identifier = "Text ''f''" and contract_abi = example_abi and fn_abi = None
       and fn_args = "Some [- 1]" and fn_kwargs = None and abi = example_f_int]
  have resolved: "find_matching_fn_abi example_abi example_codec (Text ''f'') (Some [- 1]) None
      = Inr example_f_int"
    by (simp add: filter_defs find_matching_fn_abi_def)
  show ?thesis
    using conflict resolved by (simp add: validate_payable_def)
qed

text \<open>
  C5. With the base transaction omitted (\<open>None\<close>), \<open>prepare_transaction\<close> never
  returns a request: once the entry is resolved, \<open>validate_payable\<close> evaluates
  \<open>'value' in None\<close> and raises \<open>TypeError\<close>, before the branch of line 211 that
  would start from the empty dictionary.
\<close>

theorem prepare_transaction_without_transaction:
  "(\<forall>p. fst (prepare_transaction keccak address w3 fn_identifier contract_abi fn_abi None
               fn_args fn_kwargs s) \<noteq> Inr p)
   \<and> ((case fn_abi of
         None \<Rightarrow> find_matching_fn_abi contract_abi (codec w3) fn_identifier fn_args fn_kwargs
       | Some a \<Rightarrow> Inr a) = Inr abi \<longrightarrow>
       prepare_transaction keccak address w3 fn_identifier contract_abi fn_abi None
         fn_args fn_kwargs s = (Inl NoneTypeNotIterable, s))"
  by (auto simp: prepare_transaction_def validate_payable_def split: sum.splits)

theorem prepare_transaction_without_transaction_witness:
  "prepare_transaction example_keccak ''0xabc'' example_w3 (Text ''f'') example_abi None None
     (Some [- 1]) None [] = (Inl NoneTypeNotIterable, [])"
proof -
  note none = prepare_transaction_without_transaction
    [where s = "[]" and keccak = example_keccak and address = "''0xabc''" and ?w3.0 = example_w3
       and fn_identifier = "Text ''f''" and contract_abi = example_abi and fn_abi = None
       and fn_args = "Some [- 1]" and fn_kwargs = None and abi = example_f_int]
  have resolved: "find_matching_fn_abi example_abi example_codec (Text ''f'') (Some [- 1]) None
      = Inr example_f_int"
    by (simp add: filter_defs find_matching_fn_abi_def)
  show ?thesis
    using none resolved by simp
qed

text \<open>
  C8. \<open>prepare_transaction\<close> changes no dictionary that was in the store before the
  call, the caller's base transaction included, whatever the outcome. On success the
  result is a new dictionary: it has the base transaction's fields, its \<open>to\<close> field is
  the caller's when the base transaction has one and the address otherwise (when the
  address is not empty), and its \<open>data\<close> field is the one field added.
\<close>

theorem prepare_transaction_frame:
  "take (length s) (snd (prepare_transaction keccak address w3 fn_identifier contract_abi fn_abi
                           transaction fn_args fn_kwargs s)) = s
   \<and> (prepare_transaction keccak address w3 fn_identifier contract_abi fn_abi (Some r)
         fn_args fn_kwargs s = (Inr p, s') \<and> r < length s \<longrightarrow>
       p = length s \<and> p \<noteq> r \<and> s' ! r = s ! r \<and> length s' = Suc (length s) \<and>
       (s' ! p) ''to'' =
         (case (s ! r) ''to'' of
            Some t \<Rightarrow> Some t
          | None \<Rightarrow> if address \<noteq> [] then Some (TxStr address) else None) \<and>
       (\<forall>k. k \<noteq> ''to'' \<and> k \<noteq> ''data'' \<longrightarrow> (s' ! p) k = (s ! r) k) \<and>
       (s ! r) ''data'' = None \<and>
       (\<exists>d. (s' ! p) ''data'' = Some (TxStr d)))"
proof (rule conjI)
  show "take (length s) (snd (prepare_transaction keccak address w3 fn_identifier contract_abi
                           fn_abi transaction fn_args fn_kwargs s)) = s"
    by (auto simp: prepare_transaction_def Let_def split: sum.splits)
next
  show "prepare_transaction keccak address w3 fn_identifier contract_abi fn_abi (Some r)
         fn_args fn_kwargs s = (Inr p, s') \<and> r < length s \<longrightarrow>
       p = length s \<and> p \<noteq> r \<and> s' ! r = s ! r \<and> length s' = Suc (length s) \<and>
       (s' ! p) ''to'' =
         (case (s ! r) ''to'' of
            Some t \<Rightarrow> Some t
          | None \<Rightarrow> if address \<noteq> [] then Some (TxStr address) else None) \<and>
       (\<forall>k. k \<noteq> ''to'' \<and> k \<noteq> ''data'' \<longrightarrow> (s' ! p) k = (s ! r) k) \<and>
       (s ! r) ''data'' = None \<and>
       (\<exists>d. (s' ! p) ''data'' = Some (TxStr d))"
    by (auto simp: prepare_transaction_def Let_def nth_append
        split: sum.splits if_splits option.splits)
qed

theorem prepare_transaction_frame_witness:
  "fst (prepare_transaction example_keccak ''0xabc'' example_w3 (Text ''f'') example_abi None
          (Some 0) (Some [- 1]) None [Map.empty(''to'' \<mapsto> TxStr ''0xdef'')]) = Inr 1
   \<and> (snd (prepare_transaction example_keccak ''0xabc'' example_w3 (Text ''f'') example_abi None
          (Some 0) (Some [- 1]) None [Map.empty(''to'' \<mapsto> TxStr ''0xdef'')]) ! 0) ''data'' = None
   \<and> (snd (prepare_transaction example_keccak ''0xabc'' example_w3 (Text ''f'') example_abi None
          (Some 0) (Some [- 1]) None [Map.empty(''to'' \<mapsto> TxStr ''0xdef'')]) ! 1) ''to''
       = Some (TxStr ''0xdef'')"
proof -
  define out where "out = prepare_transaction example_keccak ''0xabc'' example_w3 (Text ''f'')
     example_abi None (Some 0) (Some [- 1]) None [Map.empty(''to'' \<mapsto> TxStr ''0xdef'')]"
  have ev: "fst out = Inr 1"
    unfolding out_def
    by (simp add: validate_payable_def prepare_transaction_def filter_defs find_matching_fn_abi_def
      encode_transaction_data_def get_function_info_def function_abi_to_4byte_selector_def
      abi_to_signature_def encode_abi_def encode_hex_def hexlify_def hexdigit_def HexBytes_def
      hexval_def remove_0x_prefix_def is_0x_prefixed_def to_hex_def)
  then have out: "out = (Inr 1, snd out)"
    by (metis prod.collapse)
  note frame = prepare_transaction_frame
    [where s = "[Map.empty(''to'' \<mapsto> TxStr ''0xdef'')]" and r = 0 and p = 1 and s' = "snd out"
       and keccak = example_keccak and address = "''0xabc''" and ?w3.0 = example_w3
       and fn_identifier = "Text ''f''" and contract_abi = example_abi and fn_abi = None
       and fn_args = "Some [- 1]" and fn_kwargs = None and transaction = "Some 0"]
  show ?thesis
    using frame out ev unfolding out_def [symmetric] by simp
qed

section \<open>Determinism of function resolution\<close>






end
